theory Spec2Isabelle
  imports Main "HOL-Library.Sublist"
begin

section \<open>JSON values and the Python string operations used by the client\<close>

text \<open>
  The value that the HTTP layer hands back after decoding a reply body, and the value of
  an untyped model field. \<open>JNull\<close> is Python's \<open>None\<close>, \<open>JObject\<close> is a \<open>dict\<close> with
  string keys (the first binding of a key is the one looked up), \<open>JArray\<close> is a \<open>list\<close>.
  Numbers with a fractional part or an exponent (Python floats) are not part of this model.
  A \<open>string\<close> stands for the UTF-8 bytes of a Python \<open>str\<close>.
\<close>

datatype json =
    JNull
  | JBool bool
  | JInt int
  | JString string
  | JArray "json list"
  | JObject "(string \<times> json) list"

text \<open>
  \<open>str.split(sep)\<close> for a non-empty separator: the string is scanned from the left and cut
  at every occurrence of \<open>sep\<close>; \<open>cur\<close> is the piece collected so far. The client calls it
  with the literals \<open>"."\<close> and \<open>": "\<close> only.
\<close>

function split_from :: "string \<Rightarrow> string \<Rightarrow> string \<Rightarrow> string list" where
  "split_from sep cur [] = [cur]"
| "split_from sep cur (c # cs) =
     (if sep \<noteq> [] \<and> prefix sep (c # cs)
      then cur # split_from sep [] (drop (length sep) (c # cs))
      else split_from sep (cur @ [c]) cs)"
  by pat_completeness auto
termination
  by (relation "measure (\<lambda>(sep, cur, s). length s)") auto

definition str_split :: "string \<Rightarrow> string \<Rightarrow> string list" where
  "str_split sep s = split_from sep [] s"

text \<open>\<open>sep.join(parts)\<close>.\<close>

fun str_join :: "string \<Rightarrow> string list \<Rightarrow> string" where
  "str_join sep [] = []"
| "str_join sep [x] = x"
| "str_join sep (x # y # ys) = x @ sep @ str_join sep (y # ys)"

text \<open>Truth value of an optional string: \<open>None\<close> and the empty string are false.\<close>

fun truthy :: "string option \<Rightarrow> bool" where
  "truthy None = False"
| "truthy (Some s) = (s \<noteq> [])"

text \<open>
  \<open>int(s)\<close> on a string: surrounding ASCII whitespace is dropped, one sign is allowed, and
  the rest must be decimal digits, where single underscores may stand between digits.
  Digits and whitespace outside ASCII, and the interpreter's configurable limit on the
  number of digits, are not modelled.
\<close>

definition is_space :: "char \<Rightarrow> bool" where
  "is_space c = (c \<in> set [CHR 0x09, CHR 0x0A, CHR 0x0B, CHR 0x0C, CHR 0x0D, CHR 0x20])"

definition is_digit :: "char \<Rightarrow> bool" where
  "is_digit c = (48 \<le> (of_char c :: nat) \<and> (of_char c :: nat) \<le> 57)"

definition strip :: "string \<Rightarrow> string" where
  "strip s = rev (dropWhile is_space (rev (dropWhile is_space s)))"

fun digits_ok :: "string \<Rightarrow> bool" where
  "digits_ok [] = False"
| "digits_ok [c] = is_digit c"
| "digits_ok (c # d # cs) =
     (is_digit c \<and> (if d = CHR ''_'' then digits_ok cs else digits_ok (d # cs)))"

definition digits_value :: "string \<Rightarrow> int" where
  "digits_value s =
     foldl (\<lambda>a c. 10 * a + (int (of_char c) - 48)) 0 (filter (\<lambda>c. c \<noteq> CHR ''_'') s)"

definition int_of_str :: "string \<Rightarrow> int option" where
  "int_of_str s =
     (let t = strip s;
          negative = (t \<noteq> [] \<and> hd t = CHR ''-'');
          body = (if t \<noteq> [] \<and> (hd t = CHR ''-'' \<or> hd t = CHR ''+'') then tl t else t)
      in if digits_ok body
         then Some (if negative then - digits_value body else digits_value body)
         else None)"

text \<open>\<open>str(n)\<close> on an integer.\<close>

fun digits_of :: "nat \<Rightarrow> string" where
  "digits_of n =
     (if n < 10 then [char_of (48 + n)] else digits_of (n div 10) @ [char_of (48 + n mod 10)])"

definition str_of_int :: "int \<Rightarrow> string" where
  "str_of_int i = (if i < 0 then CHR ''-'' # digits_of (nat (- i)) else digits_of (nat i))"

text \<open>\<open>iter(v)\<close>: the items of a list, the characters of a string, the keys of a dict;
  \<open>None\<close> where the value is not iterable.\<close>

fun py_iter :: "json \<Rightarrow> json list option" where
  "py_iter (JArray xs) = Some xs"
| "py_iter (JString s) = Some (map (\<lambda>c. JString [c]) s)"
| "py_iter (JObject kvs) = Some (map (\<lambda>kv. JString (fst kv)) kvs)"
| "py_iter _ = None"

section \<open>Exceptions\<close>

text \<open>
  Exception classes: the built-in \<open>Exception\<close>, the client's \<open>JavaException\<close>, and a class
  created at run time by \<open>type(name, bases, {})\<close>. Two created classes with the same name
  and bases are the same value here, while Python makes a new class at every call; no
  property below depends on telling them apart.
\<close>

datatype exc_class = Exception_class | JavaException | Created string "exc_class list"

fun issubclass :: "exc_class \<Rightarrow> exc_class \<Rightarrow> bool" where
  "issubclass Exception_class d = (d = Exception_class)"
| "issubclass JavaException d = (d = JavaException \<or> d = Exception_class)"
| "issubclass (Created name bases) d =
     (d = Created name bases \<or> list_ex (\<lambda>b. issubclass b d) bases)"

text \<open>
  What a call can raise. \<open>Instance cls arg notes\<close> is an instance of a client-side class,
  built as \<open>cls(arg)\<close> or \<open>cls()\<close>, with the notes added by \<open>add_note\<close>.
  \<open>ValidationError\<close> carries the names of the fields that did not validate.
  \<open>TransportError\<close> stands for whatever the HTTP layer raises.
\<close>

datatype exn =
    TypeError
  | ValueError
  | OverflowError
  | OSError
  | StopAsyncIteration
  | RuntimeError string
  | ValidationError "string list"
  | TransportError string
  | Instance exc_class "string option" "string list"
  | ExceptionGroup string "exn list"

fun isinstance :: "exn \<Rightarrow> exc_class \<Rightarrow> bool" where
  "isinstance (Instance cls arg notes) d = issubclass cls d"
| "isinstance e d = (d = Exception_class)"

text \<open>\<open>type(name, bases, {})\<close> raises \<open>ValueError\<close> when the name has a null character.\<close>

definition type_new :: "string \<Rightarrow> exc_class list \<Rightarrow> exn + exc_class" where
  "type_new name bases =
     (if CHR 0x00 \<in> set name then Inl ValueError else Inr (Created name bases))"

fun add_note :: "exn \<Rightarrow> string \<Rightarrow> exn" where
  "add_note (Instance cls arg notes) note = Instance cls arg (notes @ [note])"
| "add_note e note = e"

text \<open>An exception object is true in a condition.\<close>

definition exn_bool :: "exn \<Rightarrow> bool" where
  "exn_bool e = True"

section \<open>Models (models.py)\<close>

text \<open>
  The models are classes with typed fields on pydantic's \<open>BaseModel\<close>. Constructing a
  model from keyword arguments validates every declared field in the order of declaration,
  ignores other keys, and fails with one validation error that lists the fields that did
  not validate. The rules of the base class for the declared types are modelled here:
  a field of type \<open>int\<close> takes an integer, and converts a boolean or a numeral string;
  a field of type \<open>str\<close> takes a string, and converts an integer or a boolean;
  a field of type \<open>Iterable\<close> takes any iterable value and does not look at its items;
  a field of an enumeration takes one of its values; a field whose type is a model or a
  mapping takes an object (the conversion of pair sequences to objects is not modelled:
  they are rejected). A validator returns \<open>None\<close> where the value does not validate.
\<close>

fun int_validator :: "json \<Rightarrow> int option" where
  "int_validator (JInt n) = Some n"
| "int_validator (JBool b) = Some (if b then 1 else 0)"
| "int_validator (JString s) = int_of_str s"
| "int_validator _ = None"

fun str_validator :: "json \<Rightarrow> string option" where
  "str_validator (JString s) = Some s"
| "str_validator (JInt n) = Some (str_of_int n)"
| "str_validator (JBool b) = Some (if b then ''True'' else ''False'')"
| "str_validator _ = None"

fun mapping_validator :: "json \<Rightarrow> (string \<times> json) list option" where
  "mapping_validator (JObject kvs) = Some kvs"
| "mapping_validator _ = None"

text \<open>
  A field without a default is required: a missing key and \<open>null\<close> do not validate.
  A field declared \<open>T | None = None\<close> is \<open>None\<close> when the key is missing or \<open>null\<close>.
  A field with a default that is not optional takes the default when the key is missing.
\<close>

definition required :: "(json \<Rightarrow> 'a option) \<Rightarrow> json option \<Rightarrow> 'a option" where
  "required validator v =
     (case v of None \<Rightarrow> None | Some JNull \<Rightarrow> None | Some x \<Rightarrow> validator x)"

definition optional :: "(json \<Rightarrow> 'a option) \<Rightarrow> json option \<Rightarrow> 'a option option" where
  "optional validator v =
     (case v of None \<Rightarrow> Some None | Some JNull \<Rightarrow> Some None
      | Some x \<Rightarrow> map_option Some (validator x))"

definition with_default :: "'a \<Rightarrow> (json \<Rightarrow> 'a option) \<Rightarrow> json option \<Rightarrow> 'a option" where
  "with_default d validator v =
     (case v of None \<Rightarrow> Some d | Some JNull \<Rightarrow> None | Some x \<Rightarrow> validator x)"

definition err_if :: "bool \<Rightarrow> string \<Rightarrow> string list" where
  "err_if failed name = (if failed then [name] else [])"

subsection \<open>Operation\<close>

datatype Operation = READ | WRITE | EXEC | SEARCH | LIST | VERSION

fun Operation_value :: "Operation \<Rightarrow> string" where
  "Operation_value READ = ''read''"
| "Operation_value WRITE = ''write''"
| "Operation_value EXEC = ''exec''"
| "Operation_value SEARCH = ''search''"
| "Operation_value LIST = ''list''"
| "Operation_value VERSION = ''version''"

text \<open>\<open>Operation(v)\<close>: the member with that value, if any.\<close>

definition Operation_validator :: "json \<Rightarrow> Operation option" where
  "Operation_validator v =
     (case v of
        JString s \<Rightarrow>
          find (\<lambda>member. Operation_value member = s) [READ, WRITE, EXEC, SEARCH, LIST, VERSION]
      | _ \<Rightarrow> None)"

subsection \<open>JolokiaRequest\<close>

text \<open>
  The field \<open>value\<close> is untyped: \<open>JNull\<close> is Python's \<open>None\<close>, the value of the field
  when it is not given. The field \<open>arguments\<close> is kept as the list of the items of the
  iterable.
\<close>

record JolokiaRequest =
  req_type :: Operation
  req_mbean :: "string option"
  req_attribute :: "string option"
  req_path :: "string option"
  req_value :: json
  req_operation_name :: "string option"
  req_arguments :: "json list option"

definition any_field :: "json option \<Rightarrow> json" where
  "any_field v = (case v of None \<Rightarrow> JNull | Some x \<Rightarrow> x)"

definition JolokiaRequest_validator :: "json \<Rightarrow> JolokiaRequest option" where
  "JolokiaRequest_validator v =
     (case v of
        JObject kw \<Rightarrow>
          (case (required Operation_validator (map_of kw ''type''),
                 optional str_validator (map_of kw ''mbean''),
                 optional str_validator (map_of kw ''attribute''),
                 optional str_validator (map_of kw ''path''),
                 optional str_validator (map_of kw ''operation_name''),
                 optional py_iter (map_of kw ''arguments'')) of
             (Some t, Some m, Some a, Some p, Some n, Some args) \<Rightarrow>
               Some \<lparr>req_type = t, req_mbean = m, req_attribute = a, req_path = p,
                     req_value = any_field (map_of kw ''value''),
                     req_operation_name = n, req_arguments = args\<rparr>
           | _ \<Rightarrow> None)
      | _ \<Rightarrow> None)"

text \<open>
  \<open>request.json(exclude_none=True)\<close>: the fields in the order of declaration, without
  those whose value is \<open>None\<close>. The enumeration is written as its value. The rendering of
  the object as text is not modelled: the body of a request is kept as a JSON value.
  A field of type \<open>Iterable\<close> holds the iterator \<open>iter(value)\<close> of the value it was given,
  which the encoder cannot write: for a request whose \<open>arguments\<close> is not \<open>None\<close> the
  call raises \<open>TypeError\<close>.
\<close>

definition opt_str :: "string option \<Rightarrow> json" where
  "opt_str v = (case v of None \<Rightarrow> JNull | Some s \<Rightarrow> JString s)"

definition JolokiaRequest_dict :: "JolokiaRequest \<Rightarrow> (string \<times> json) list" where
  "JolokiaRequest_dict r =
     [(''type'', JString (Operation_value (req_type r))),
      (''mbean'', opt_str (req_mbean r)),
      (''attribute'', opt_str (req_attribute r)),
      (''path'', opt_str (req_path r)),
      (''value'', req_value r),
      (''operation_name'', opt_str (req_operation_name r)),
      (''arguments'', (case req_arguments r of None \<Rightarrow> JNull | Some xs \<Rightarrow> JArray xs))]"

definition JolokiaRequest_json :: "JolokiaRequest \<Rightarrow> exn + json" where
  "JolokiaRequest_json r =
     (if req_arguments r \<noteq> None then Inl TypeError
      else Inr (JObject (filter (\<lambda>kv. snd kv \<noteq> JNull) (JolokiaRequest_dict r))))"

subsection \<open>JolokiaResponse\<close>

text \<open>
  \<open>datetime.fromtimestamp\<close> depends on the platform and the local time zone: it is a
  parameter \<open>fromtimestamp\<close> of the model, and \<open>'dt\<close> is the type of calendar timestamps.
  It returns the timestamp or raises one of three errors.
\<close>

datatype ts_error = TsValueError | TsOverflowError | TsOSError

definition convert_timestamp ::
  "(int \<Rightarrow> ts_error + 'dt) \<Rightarrow> int option \<Rightarrow> ts_error + 'dt option" where
  "convert_timestamp fromtimestamp timestamp =
     (case timestamp of
        Some t \<Rightarrow> (case fromtimestamp t of Inl e \<Rightarrow> Inl e | Inr d \<Rightarrow> Inr (Some d))
      | None \<Rightarrow> Inr None)"

text \<open>
  The items of \<open>history\<close> are not validated when the model is built (the field is an
  \<open>Iterable\<close>), so they are kept as they came.
\<close>

record 'dt JolokiaResponse =
  resp_status :: int
  resp_value :: json
  resp_history :: "json list option"
  resp_request :: "JolokiaRequest option"
  resp_timestamp :: "'dt option"
  resp_error_type :: "string option"
  resp_error :: "string option"
  resp_stacktrace :: "string option"

text \<open>
  The field \<open>timestamp\<close> is validated as an optional integer and then given to
  \<open>_convert_timestamp\<close>. A \<open>ValueError\<close> of the validator function is a validation error of
  the field; another error leaves the constructor as it is. The result is \<open>Inl\<close> for such
  an error, \<open>Inr None\<close> when the field does not validate.
\<close>

definition timestamp_field ::
  "(int \<Rightarrow> ts_error + 'dt) \<Rightarrow> json option \<Rightarrow> exn + 'dt option option" where
  "timestamp_field fromtimestamp v =
     (case optional int_validator v of
        None \<Rightarrow> Inr None
      | Some timestamp \<Rightarrow>
          (case convert_timestamp fromtimestamp timestamp of
             Inl TsValueError \<Rightarrow> Inr None
           | Inl TsOverflowError \<Rightarrow> Inl OverflowError
           | Inl TsOSError \<Rightarrow> Inl OSError
           | Inr d \<Rightarrow> Inr (Some d)))"

text \<open>
  \<open>JolokiaResponse(**result)\<close>: \<open>result\<close> has to be a mapping (\<open>TypeError\<close> otherwise).
\<close>

definition JolokiaResponse_errors ::
  "(int \<Rightarrow> ts_error + 'dt) \<Rightarrow> (string \<times> json) list \<Rightarrow> string list" where
  "JolokiaResponse_errors fromtimestamp kw =
     err_if (required int_validator (map_of kw ''status'') = None) ''status'' @
     err_if (optional py_iter (map_of kw ''history'') = None) ''history'' @
     err_if (optional JolokiaRequest_validator (map_of kw ''request'') = None) ''request'' @
     err_if (timestamp_field fromtimestamp (map_of kw ''timestamp'') = Inr None) ''timestamp'' @
     err_if (optional str_validator (map_of kw ''error_type'') = None) ''error_type'' @
     err_if (optional str_validator (map_of kw ''error'') = None) ''error'' @
     err_if (optional str_validator (map_of kw ''stacktrace'') = None) ''stacktrace''"

definition JolokiaResponse_init ::
  "(int \<Rightarrow> ts_error + 'dt) \<Rightarrow> json \<Rightarrow> exn + 'dt JolokiaResponse" where
  "JolokiaResponse_init fromtimestamp result =
     (case result of
        JObject kw \<Rightarrow>
          (case timestamp_field fromtimestamp (map_of kw ''timestamp'') of
             Inl e \<Rightarrow> Inl e
           | Inr timestamp \<Rightarrow>
               (case (required int_validator (map_of kw ''status''),
                      optional py_iter (map_of kw ''history''),
                      optional JolokiaRequest_validator (map_of kw ''request''),
                      timestamp,
                      optional str_validator (map_of kw ''error_type''),
                      optional str_validator (map_of kw ''error''),
                      optional str_validator (map_of kw ''stacktrace'')) of
                  (Some status, Some history, Some request, Some ts,
                   Some error_type, Some error, Some stacktrace) \<Rightarrow>
                    Inr \<lparr>resp_status = status,
                         resp_value = any_field (map_of kw ''value''),
                         resp_history = history, resp_request = request,
                         resp_timestamp = ts, resp_error_type = error_type,
                         resp_error = error, resp_stacktrace = stacktrace\<rparr>
                | _ \<Rightarrow> Inl (ValidationError (JolokiaResponse_errors fromtimestamp kw))))
      | _ \<Rightarrow> Inl TypeError)"

subsection \<open>JolokiaVersion\<close>

record JolokiaVersionInfo =
  info_product :: string
  info_vendor :: string
  info_version :: string
  info_extraInfo :: "(string \<times> json) list"

record JolokiaVersion =
  ver_protocol :: string
  ver_agent :: string
  ver_config :: "(string \<times> json) list"
  ver_info :: JolokiaVersionInfo

text \<open>The field \<open>extraInfo\<close> is read from the key \<open>extra_info\<close>, its alias.\<close>

definition JolokiaVersionInfo_validator :: "json \<Rightarrow> JolokiaVersionInfo option" where
  "JolokiaVersionInfo_validator v =
     (case v of
        JObject kw \<Rightarrow>
          (case (required str_validator (map_of kw ''product''),
                 required str_validator (map_of kw ''vendor''),
                 required str_validator (map_of kw ''version''),
                 with_default [] mapping_validator (map_of kw ''extra_info'')) of
             (Some product, Some vendor, Some version, Some extra) \<Rightarrow>
               Some \<lparr>info_product = product, info_vendor = vendor,
                     info_version = version, info_extraInfo = extra\<rparr>
           | _ \<Rightarrow> None)
      | _ \<Rightarrow> None)"

definition JolokiaVersion_errors :: "(string \<times> json) list \<Rightarrow> string list" where
  "JolokiaVersion_errors kw =
     err_if (required str_validator (map_of kw ''protocol'') = None) ''protocol'' @
     err_if (required str_validator (map_of kw ''agent'') = None) ''agent'' @
     err_if (with_default [] mapping_validator (map_of kw ''config'') = None) ''config'' @
     err_if (required JolokiaVersionInfo_validator (map_of kw ''info'') = None) ''info''"

text \<open>\<open>JolokiaVersion(**value)\<close>: \<open>value\<close> has to be a mapping (\<open>TypeError\<close> otherwise).\<close>

definition JolokiaVersion_init :: "json \<Rightarrow> exn + JolokiaVersion" where
  "JolokiaVersion_init v =
     (case v of
        JObject kw \<Rightarrow>
          (case (required str_validator (map_of kw ''protocol''),
                 required str_validator (map_of kw ''agent''),
                 with_default [] mapping_validator (map_of kw ''config''),
                 required JolokiaVersionInfo_validator (map_of kw ''info'')) of
             (Some protocol, Some agent, Some config, Some info) \<Rightarrow>
               Inr \<lparr>ver_protocol = protocol, ver_agent = agent,
                    ver_config = config, ver_info = info\<rparr>
           | _ \<Rightarrow> Inl (ValidationError (JolokiaVersion_errors kw)))
      | _ \<Rightarrow> Inl TypeError)"


section \<open>Client (client.py)\<close>

text \<open>
  The client object keeps the base URL, the optional credentials and the flag
  \<open>raise_exceptions\<close>. The HTTP layer is a parameter \<open>post\<close>: from the URL, the credentials
  and the body it gives the decoded JSON reply, or fails with a message.
\<close>

record JolokiaClient =
  base_url :: string
  auth :: "(string \<times> string) option"
  raise_exceptions :: bool

type_synonym transport = "string \<Rightarrow> (string \<times> string) option \<Rightarrow> json \<Rightarrow> string + json"

text \<open>
  \<open>_build_exception\<close>, with its local variables \<open>exc_name\<close> and \<open>exc_msg\<close>: \<open>Inr\<close> is the
  exception object that is returned, \<open>Inl\<close> an error raised while it is built. \<open>split\<close>
  never returns an empty list, so \<open>[-1]\<close> is the last piece and \<open>[1:]\<close> is the tail.
\<close>

definition exc_name :: "'dt JolokiaResponse \<Rightarrow> string" where
  "exc_name response =
     (case resp_error_type response of
        Some error_type \<Rightarrow>
          if error_type \<noteq> [] then last (str_split ''.'' error_type) else ''Throwable''
      | None \<Rightarrow> ''Throwable'')"

definition exc_msg :: "'dt JolokiaResponse \<Rightarrow> string option" where
  "exc_msg response =
     (case resp_error response of
        Some error \<Rightarrow>
          if error \<noteq> [] then Some (str_join '': '' (tl (str_split '': '' error))) else None
      | None \<Rightarrow> None)"

definition build_exception :: "'dt JolokiaResponse \<Rightarrow> exn + exn" where
  "build_exception response =
     (case type_new (exc_name response) [JavaException] of
        Inl e \<Rightarrow> Inl e
      | Inr exc_cls \<Rightarrow>
          (let exc = (if truthy (exc_msg response)
                      then Instance exc_cls (exc_msg response) []
                      else Instance exc_cls None [])
           in case resp_stacktrace response of
                Some stacktrace \<Rightarrow>
                  Inr (if stacktrace \<noteq> [] then add_note exc stacktrace else exc)
              | None \<Rightarrow> Inr exc))"

text \<open>
  \<open>fetch_json\<close>: the operations are serialized one after the other into the array \<open>data\<close>
  (the first that cannot be serialized raises), and \<open>data\<close> is the body of one POST.
\<close>

fun serialize_all :: "JolokiaRequest list \<Rightarrow> exn + json list" where
  "serialize_all [] = Inr []"
| "serialize_all (request # requests) =
     (case JolokiaRequest_json request of
        Inl e \<Rightarrow> Inl e
      | Inr j \<Rightarrow>
          (case serialize_all requests of Inl e \<Rightarrow> Inl e | Inr js \<Rightarrow> Inr (j # js)))"

definition fetch_json_data :: "JolokiaRequest list \<Rightarrow> exn + json" where
  "fetch_json_data operations =
     (case serialize_all operations of Inl e \<Rightarrow> Inl e | Inr js \<Rightarrow> Inr (JArray js))"

definition fetch_json ::
  "transport \<Rightarrow> JolokiaClient \<Rightarrow> JolokiaRequest list \<Rightarrow> exn + json" where
  "fetch_json post self operations =
     (case fetch_json_data operations of
        Inl e \<Rightarrow> Inl e
      | Inr data \<Rightarrow>
          (case post (base_url self) (auth self) data of
             Inl message \<Rightarrow> Inl (TransportError message)
           | Inr json_obj \<Rightarrow> Inr json_obj))"

text \<open>
  An asynchronous generator, as the consumer sees it: each \<open>Yield\<close> is one item produced,
  followed by what the generator does when it is resumed; it ends by returning or by raising.
\<close>

datatype 'a gen = Yield 'a "'a gen" | Return | Raise exn

fun yielded :: "'a gen \<Rightarrow> 'a list" where
  "yielded (Yield x g) = x # yielded g"
| "yielded Return = []"
| "yielded (Raise e) = []"

fun raised :: "'a gen \<Rightarrow> exn option" where
  "raised (Yield x g) = raised g"
| "raised Return = None"
| "raised (Raise e) = Some e"

text \<open>\<open>__anext__\<close>: the first item of a fresh generator.\<close>

fun anext :: "'a gen \<Rightarrow> exn + 'a" where
  "anext (Yield x g) = Inr x"
| "anext Return = Inl StopAsyncIteration"
| "anext (Raise e) = Inl e"

text \<open>
  \<open>isinstance(json_obj, Sequence)\<close> holds for a list and for a string. \<open>results_of\<close> is the
  list of the values that the loop of \<open>request\<close> visits: the reply itself when it is a
  sequence, the one-element list \<open>[json_obj]\<close> otherwise.
\<close>

fun isinstance_Sequence :: "json \<Rightarrow> bool" where
  "isinstance_Sequence (JArray xs) = True"
| "isinstance_Sequence (JString s) = True"
| "isinstance_Sequence j = False"

definition results_of :: "json \<Rightarrow> json list" where
  "results_of json_obj =
     (if isinstance_Sequence json_obj
      then (case py_iter json_obj of Some results \<Rightarrow> results | None \<Rightarrow> [])
      else [json_obj])"

text \<open>The loop of \<open>request\<close> and what follows it; \<open>exceptions\<close> is the list collected so far.\<close>

fun request_loop ::
  "(int \<Rightarrow> ts_error + 'dt) \<Rightarrow> JolokiaClient \<Rightarrow> exn list \<Rightarrow> json list
     \<Rightarrow> 'dt JolokiaResponse gen" where
  "request_loop fromtimestamp self exceptions [] =
     (if raise_exceptions self \<and> exceptions \<noteq> []
      then Raise (ExceptionGroup ''JolokiaException'' exceptions)
      else Return)"
| "request_loop fromtimestamp self exceptions (result # results) =
     (case JolokiaResponse_init fromtimestamp result of
        Inl e \<Rightarrow> Raise e
      | Inr response \<Rightarrow>
          if resp_status response \<ge> 400
          then (case build_exception response of
                  Inl e \<Rightarrow> Raise e
                | Inr exc \<Rightarrow>
                    Yield response
                      (request_loop fromtimestamp self (exceptions @ [exc]) results))
          else Yield response (request_loop fromtimestamp self exceptions results))"

definition request ::
  "transport \<Rightarrow> (int \<Rightarrow> ts_error + 'dt) \<Rightarrow> JolokiaClient \<Rightarrow> JolokiaRequest list
     \<Rightarrow> 'dt JolokiaResponse gen" where
  "request post fromtimestamp self operations =
     (case fetch_json post self operations of
        Inl e \<Rightarrow> Raise e
      | Inr json_obj \<Rightarrow> request_loop fromtimestamp self [] (results_of json_obj))"

text \<open>The request that \<open>version\<close> sends: \<open>JolokiaRequest(type=Operation.VERSION)\<close>.\<close>

definition version_request :: JolokiaRequest where
  "version_request =
     \<lparr>req_type = VERSION, req_mbean = None, req_attribute = None, req_path = None,
      req_value = JNull, req_operation_name = None, req_arguments = None\<rparr>"

definition version ::
  "transport \<Rightarrow> (int \<Rightarrow> ts_error + 'dt) \<Rightarrow> JolokiaClient \<Rightarrow> exn + JolokiaVersion" where
  "version post fromtimestamp self =
     (case anext (request post fromtimestamp self [version_request]) of
        Inl e \<Rightarrow> Inl e
      | Inr response \<Rightarrow>
          if resp_status response = 200 then JolokiaVersion_init (resp_value response)
          else (case build_exception response of
                  Inl e \<Rightarrow> Inl e
                | Inr exc \<Rightarrow>
                    if exn_bool exc then Inl exc
                    else Inl (RuntimeError
                      ''Undefined exception happened while requesting version.'')))"


section \<open>Inputs used in the examples\<close>

text \<open>A transport that answers every call with the same reply, and one that always fails.\<close>

definition answering :: "json \<Rightarrow> transport" where
  "answering reply = (\<lambda>url credentials body. Inr reply)"

definition failing :: "string \<Rightarrow> transport" where
  "failing message = (\<lambda>url credentials body. Inl message)"

text \<open>A calendar conversion that keeps the epoch seconds.\<close>

definition seconds :: "int \<Rightarrow> ts_error + int" where
  "seconds t = Inr t"

definition client :: "bool \<Rightarrow> JolokiaClient" where
  "client flag =
     \<lparr>base_url = ''http://localhost:8080/jolokia'', auth = None, raise_exceptions = flag\<rparr>"

text \<open>A response with the given status and no other field.\<close>

definition bare_response :: "int \<Rightarrow> int JolokiaResponse" where
  "bare_response status =
     \<lparr>resp_status = status, resp_value = JNull, resp_history = None, resp_request = None,
      resp_timestamp = None, resp_error_type = None, resp_error = None,
      resp_stacktrace = None\<rparr>"

text \<open>The two replies to \<open>version\<close> of the specification's examples.\<close>

definition version_value :: json where
  "version_value =
     JObject [(''protocol'', JString ''7.2''), (''agent'', JString ''1.6.0''),
              (''info'', JObject [(''product'', JString ''jolokia''),
                                 (''vendor'', JString ''x''), (''version'', JString ''1'')])]"

definition version_reply_200 :: json where
  "version_reply_200 = JObject [(''status'', JInt 200), (''value'', version_value)]"

definition version_response_200 :: "int JolokiaResponse" where
  "version_response_200 = (bare_response 200)\<lparr>resp_value := version_value\<rparr>"

definition version_info_72 :: JolokiaVersion where
  "version_info_72 =
     \<lparr>ver_protocol = ''7.2'', ver_agent = ''1.6.0'', ver_config = [],
      ver_info = \<lparr>info_product = ''jolokia'', info_vendor = ''x'', info_version = ''1'',
                  info_extraInfo = []\<rparr>\<rparr>"

definition version_reply_404 :: json where
  "version_reply_404 =
     JObject [(''status'', JInt 404),
              (''error_type'', JString ''java.lang.IllegalArgumentException''),
              (''error'', JString ''java.lang.IllegalArgumentException: no such endpoint'')]"

text \<open>A failed entry of a reply, the response parsed from it and the failure made for it.\<close>

definition failed_fields :: "(string \<times> json) list" where
  "failed_fields =
     [(''status'', JInt 500), (''error_type'', JString ''java.lang.IllegalStateException'')]"

definition failed_entry :: json where
  "failed_entry = JObject failed_fields"

definition failed_response :: "int JolokiaResponse" where
  "failed_response =
     (bare_response 500)\<lparr>resp_error_type := Some ''java.lang.IllegalStateException''\<rparr>"

definition failed_exc :: exn where
  "failed_exc = Instance (Created ''IllegalStateException'' [JavaException]) None []"

text \<open>A WRITE request whose value is the integer zero.\<close>

definition write_zero :: JolokiaRequest where
  "write_zero =
     \<lparr>req_type = WRITE, req_mbean = Some ''java.lang:type=Memory'',
      req_attribute = Some ''Verbose'', req_path = None, req_value = JInt 0,
      req_operation_name = None, req_arguments = None\<rparr>"

text \<open>An EXEC request with one argument.\<close>

definition exec_request :: JolokiaRequest where
  "exec_request =
     \<lparr>req_type = EXEC, req_mbean = Some ''java.lang:type=Threading'',
      req_attribute = None, req_path = None, req_value = JNull,
      req_operation_name = Some ''getThreadInfo'', req_arguments = Some [JInt 1]\<rparr>"

text \<open>An entry with the status 200 and no other field, and two entries that do not validate.\<close>

definition ok_entry :: json where
  "ok_entry = JObject [(''status'', JInt 200)]"

definition entry_without_status :: json where
  "entry_without_status = JObject []"

definition entry_with_bad_error :: json where
  "entry_with_bad_error = JObject [(''status'', JInt 200), (''error'', JArray [])]"

definition version_response_404 :: "int JolokiaResponse" where
  "version_response_404 =
     (bare_response 404)
       \<lparr>resp_error_type := Some ''java.lang.IllegalArgumentException'',
        resp_error := Some ''java.lang.IllegalArgumentException: no such endpoint''\<rparr>"

definition illegal_argument :: exn where
  "illegal_argument =
     Instance (Created ''IllegalArgumentException'' [JavaException])
       (Some ''no such endpoint'') []"

text \<open>A reply with the status 200 whose value lacks fields of the version information.\<close>

definition version_reply_incomplete :: json where
  "version_reply_incomplete =
     JObject [(''status'', JInt 200), (''value'', JObject [(''protocol'', JString ''7.2'')])]"

text \<open>The body that \<open>version\<close> sends.\<close>

definition version_body :: json where
  "version_body = JArray [JObject [(''type'', JString ''version'')]]"

text \<open>A failed response whose error has no \<open>": "\<close>.\<close>

definition reset_response :: "int JolokiaResponse" where
  "reset_response =
     (bare_response 500)
       \<lparr>resp_error_type := Some ''java.io.IOException'',
        resp_error := Some ''connection reset''\<rparr>"

section \<open>Properties of the generator and of exception synthesis\<close>

lemma yielded_foldr_Yield: "yielded (foldr Yield rs g) = rs @ yielded g"
  by (induction rs) simp_all

lemma raised_foldr_Yield: "raised (foldr Yield rs g) = raised g"
  by (induction rs) simp_all

lemma serialize_all_error: "serialize_all operations = Inl e \<Longrightarrow> e = TypeError"
  by (induction operations arbitrary: e)
     (auto simp: JolokiaRequest_json_def split: sum.splits if_splits)

lemma fetch_json_error:
  "fetch_json post self operations = Inl e \<Longrightarrow>
     e = TypeError \<or> (\<exists>message. e = TransportError message)"
  by (auto simp: fetch_json_def fetch_json_data_def split: sum.splits dest: serialize_all_error)

lemma fetch_json_data_version_request: "fetch_json_data [version_request] = Inr version_body"
  by code_simp

lemma JolokiaResponse_init_error:
  "JolokiaResponse_init fromtimestamp result = Inl e \<Longrightarrow>
     e = TypeError \<or> e = OverflowError \<or> e = OSError \<or> (\<exists>names. e = ValidationError names)"
  unfolding JolokiaResponse_init_def timestamp_field_def
  by (auto split: json.splits sum.splits option.splits prod.splits ts_error.splits)

lemma build_exception_error: "build_exception response = Inl e \<Longrightarrow> e = ValueError"
  by (auto simp: build_exception_def type_new_def Let_def
           split: option.splits if_splits sum.splits)

lemma build_exception_JavaException:
  "build_exception response = Inr exc \<Longrightarrow> isinstance exc JavaException"
  by (auto simp: build_exception_def type_new_def Let_def
           split: option.splits if_splits sum.splits)

text \<open>
  When every entry is accepted, the loop produces the parsed responses in the order of
  the entries and ends as the empty loop does with the failures of the failed entries
  added, in their order, to those collected before.
\<close>

lemma request_loop_accepted:
  assumes "map (JolokiaResponse_init fromtimestamp) results = map Inr responses"
    and "map build_exception (filter (\<lambda>r. resp_status r \<ge> 400) responses) = map Inr new"
  shows "request_loop fromtimestamp self exceptions results =
           foldr Yield responses (request_loop fromtimestamp self (exceptions @ new) [])"
  using assms
proof (induction results arbitrary: responses exceptions new)
  case Nil
  then show ?case by simp
next
  case (Cons result results)
  from Cons.prems(1) obtain r rs where rs: "responses = r # rs"
    and r: "JolokiaResponse_init fromtimestamp result = Inr r"
    and rest: "map (JolokiaResponse_init fromtimestamp) results = map Inr rs"
    by (cases responses) auto
  show ?case
  proof (cases "resp_status r \<ge> 400")
    case True
    with Cons.prems(2) rs obtain e es where new: "new = e # es"
      and e: "build_exception r = Inr e"
      and es: "map build_exception (filter (\<lambda>r. resp_status r \<ge> 400) rs) = map Inr es"
      by (cases new) auto
    from Cons.IH [OF rest es, of "exceptions @ [e]"] show ?thesis
      using True r e rs new by simp
  next
    case False
    with Cons.prems(2) rs
    have es: "map build_exception (filter (\<lambda>r. resp_status r \<ge> 400) rs) = map Inr new"
      by simp
    from Cons.IH [OF rest es, of exceptions] show ?thesis
      using False r rs by simp
  qed
qed

text \<open>Every member of a group raised by the loop was made by \<open>_build_exception\<close>.\<close>

lemma request_loop_members:
  assumes "\<forall>e \<in> set exceptions. isinstance e JavaException"
    and "raised (request_loop fromtimestamp self exceptions results)
           = Some (ExceptionGroup name es)"
  shows "\<forall>e \<in> set es. isinstance e JavaException"
  using assms
proof (induction results arbitrary: exceptions)
  case Nil
  then show ?case by (auto split: if_splits)
next
  case (Cons result results)
  show ?case
  proof (cases "JolokiaResponse_init fromtimestamp result")
    case (Inl e)
    with Cons.prems(2) JolokiaResponse_init_error [OF Inl] show ?thesis by auto
  next
    case (Inr r)
    show ?thesis
    proof (cases "resp_status r \<ge> 400")
      case True
      show ?thesis
      proof (cases "build_exception r")
        case (Inl e)
        with build_exception_error [OF Inl] Inr True Cons.prems(2) show ?thesis by simp
      next
        case built: (Inr exc)
        have a: "\<forall>e \<in> set (exceptions @ [exc]). isinstance e JavaException"
          using Cons.prems(1) build_exception_JavaException [OF built] by simp
        have b: "raised (request_loop fromtimestamp self (exceptions @ [exc]) results)
                   = Some (ExceptionGroup name es)"
          using Cons.prems(2) Inr True built by simp
        show ?thesis by (rule Cons.IH [OF a b])
      qed
    next
      case False
      then have b: "raised (request_loop fromtimestamp self exceptions results)
                      = Some (ExceptionGroup name es)"
        using Cons.prems(2) Inr by simp
      show ?thesis by (rule Cons.IH [OF Cons.prems(1) b])
    qed
  qed
qed

section \<open>Transport failures\<close>

text \<open>
  C9. When the transport fails on the call of a batch, that is, the operations were
  serialized into the body \<open>data\<close> and the POST of \<open>data\<close> failed, \<open>request\<close> raises the
  transport failure at once: the generator produces no response at all, so no partial
  sequence of responses is seen by the consumer.
\<close>

theorem request_transport_failure:
  assumes "fetch_json_data operations = Inr data"
    and "post (base_url self) (auth self) data = Inl message"
  shows "request post fromtimestamp self operations = Raise (TransportError message)
         \<and> yielded (request post fromtimestamp self operations) = []
         \<and> raised (request post fromtimestamp self operations) = Some (TransportError message)"
  using assms by (simp add: request_def fetch_json_def)

lemma fetch_json_data_two_requests:
  "fetch_json_data [write_zero, version_request]
     = Inr (JArray [JObject [(''type'', JString ''write''),
                             (''mbean'', JString ''java.lang:type=Memory''),
                             (''attribute'', JString ''Verbose''), (''value'', JInt 0)],
                    JObject [(''type'', JString ''version'')]])"
  by code_simp

theorem request_transport_failure_witness:
  "fetch_json_data [write_zero, version_request]
     = Inr (JArray [JObject [(''type'', JString ''write''),
                             (''mbean'', JString ''java.lang:type=Memory''),
                             (''attribute'', JString ''Verbose''), (''value'', JInt 0)],
                    JObject [(''type'', JString ''version'')]])
   \<and> failing ''connection refused'' (base_url (client True)) (auth (client True))
         (JArray [JObject [(''type'', JString ''write''),
                           (''mbean'', JString ''java.lang:type=Memory''),
                           (''attribute'', JString ''Verbose''), (''value'', JInt 0)],
                  JObject [(''type'', JString ''version'')]])
       = Inl ''connection refused''
   \<and> request (failing ''connection refused'') seconds (client True)
         [write_zero, version_request]
       = Raise (TransportError ''connection refused'')"
proof -
  have p: "failing ''connection refused'' (base_url (client True)) (auth (client True))
         (JArray [JObject [(''type'', JString ''write''),
                           (''mbean'', JString ''java.lang:type=Memory''),
                           (''attribute'', JString ''Verbose''), (''value'', JInt 0)],
                  JObject [(''type'', JString ''version'')]])
       = Inl ''connection refused''"
    by (simp add: failing_def)
  have r: "request (failing ''connection refused'') seconds (client True)
             [write_zero, version_request]
           = Raise (TransportError ''connection refused'')"
    using request_transport_failure
            [where post = "failing ''connection refused''" and self = "client True"
               and operations = "[write_zero, version_request]"
               and message = "''connection refused''" and fromtimestamp = seconds,
             OF fetch_json_data_two_requests p]
    by (rule conjunct1)
  show ?thesis by (intro conjI fetch_json_data_two_requests p r)
qed

section \<open>The class of the synthesized failures\<close>

text \<open>
  C10. Every exception object that \<open>_build_exception\<close> returns, whatever the error type
  of the response, is an instance of \<open>JavaException\<close>; so is every member of a group
  that \<open>request\<close> raises.
\<close>

theorem synthesized_failure_isinstance_JavaException:
  "(build_exception response = Inr exc \<longrightarrow> isinstance exc JavaException)
   \<and> (raised (request post fromtimestamp self operations) = Some (ExceptionGroup name es)
        \<longrightarrow> (\<forall>e \<in> set es. isinstance e JavaException))"
proof (intro conjI impI)
  assume "build_exception response = Inr exc"
  then show "isinstance exc JavaException" by (rule build_exception_JavaException)
next
  assume group: "raised (request post fromtimestamp self operations)
                   = Some (ExceptionGroup name es)"
  show "\<forall>e \<in> set es. isinstance e JavaException"
  proof (cases "fetch_json post self operations")
    case (Inl e)
    with group fetch_json_error [OF Inl] show ?thesis
      by (auto simp: request_def)
  next
    case (Inr json_obj)
    with group
    have "raised (request_loop fromtimestamp self [] (results_of json_obj))
            = Some (ExceptionGroup name es)"
      by (simp add: request_def)
    with request_loop_members [of "[]"] show ?thesis by simp
  qed
qed

lemma build_exception_failed_response: "build_exception failed_response = Inr failed_exc"
  by code_simp

lemma request_failed_entry_raised:
  "raised (request (answering (JArray [failed_entry])) seconds (client True) [version_request])
     = Some (ExceptionGroup ''JolokiaException'' [failed_exc])"
  by code_simp

theorem synthesized_failure_isinstance_JavaException_witness:
  "build_exception failed_response = Inr failed_exc
   \<and> isinstance failed_exc JavaException
   \<and> raised (request (answering (JArray [failed_entry])) seconds (client True)
               [version_request])
       = Some (ExceptionGroup ''JolokiaException'' [failed_exc])"
  using synthesized_failure_isinstance_JavaException
          [of failed_response failed_exc "answering (JArray [failed_entry])" seconds
              "client True" "[version_request]" "''JolokiaException''" "[failed_exc]"]
        build_exception_failed_response request_failed_entry_raised
  by simp

section \<open>Serialization of a request\<close>

text \<open>
  A request without \<open>arguments\<close> is serialized into an object that has, once each, exactly
  the fields whose value is not \<open>None\<close>, with that value: a field whose value is \<open>None\<close> is
  left out and no field is written as \<open>null\<close>; a value that is present is written also
  when it is false in a condition, so a WRITE request with the value \<open>0\<close> is serialized
  with its field \<open>value\<close>.
\<close>

lemma JolokiaRequest_json_without_arguments:
  assumes "req_arguments r = None"
  shows "\<exists>kvs. JolokiaRequest_json r = Inr (JObject kvs)
     \<and> distinct (map fst kvs)
     \<and> JNull \<notin> snd ` set kvs
     \<and> fst ` set kvs \<subseteq> {''type'', ''mbean'', ''attribute'', ''path'', ''value'',
                            ''operation_name''}
     \<and> map_of kvs ''type'' = Some (JString (Operation_value (req_type r)))
     \<and> map_of kvs ''mbean'' = map_option JString (req_mbean r)
     \<and> map_of kvs ''attribute'' = map_option JString (req_attribute r)
     \<and> map_of kvs ''path'' = map_option JString (req_path r)
     \<and> map_of kvs ''value'' = (if req_value r = JNull then None else Some (req_value r))
     \<and> map_of kvs ''operation_name'' = map_option JString (req_operation_name r)
     \<and> map_of kvs ''arguments'' = None
     \<and> (req_type r = WRITE \<and> req_value r = JInt 0 \<longrightarrow> map_of kvs ''value'' = Some (JInt 0))"
  using assms unfolding JolokiaRequest_json_def JolokiaRequest_dict_def opt_str_def
  by (cases "req_mbean r"; cases "req_attribute r"; cases "req_path r";
      cases "req_operation_name r"; cases "req_value r = JNull")
     simp_all

lemma JolokiaRequest_json_write_zero:
  "JolokiaRequest_json write_zero =
     Inr (JObject [(''type'', JString ''write''), (''mbean'', JString ''java.lang:type=Memory''),
                   (''attribute'', JString ''Verbose''), (''value'', JInt 0)])"
  by code_simp

text \<open>
  C5. The claim holds for the requests above and fails for a request with \<open>arguments\<close>:
  for the EXEC request with the one argument \<open>1\<close>, whose \<open>arguments\<close> is present, the
  serialization emits no object but raises \<open>TypeError\<close>, and so does a batch that holds
  this request, before anything is sent.
\<close>

theorem JolokiaRequest_json_arguments_raises:
  "req_arguments exec_request = Some [JInt 1]
   \<and> JolokiaRequest_json exec_request = Inl TypeError
   \<and> fetch_json (answering (JArray [ok_entry])) (client False) [exec_request] = Inl TypeError
   \<and> request (answering (JArray [ok_entry])) seconds (client False) [exec_request]
       = Raise TypeError"
  by code_simp

section \<open>The responses of a batch\<close>

lemma map_Inr_ex:
  "(\<forall>x \<in> set xs. \<exists>y. f x = Inr y) \<Longrightarrow> \<exists>ys. map f xs = map Inr ys"
proof (induction xs)
  case Nil
  then show ?case by simp
next
  case (Cons x xs)
  then obtain y ys where "f x = Inr y" "map f xs = map Inr ys" by auto
  then have "map f (x # xs) = map Inr (y # ys)" by simp
  then show ?case by blast
qed

text \<open>
  C1, as the code has it. For a non-empty sequence of \<open>n\<close> requests for which
  \<open>fetch_json\<close> returns a reply that is an array of \<open>n\<close> entries, each of which is
  accepted (it parses into a response, and when its status is 400 or more a failure is
  made for it), \<open>request\<close> produces exactly \<open>n\<close> responses, and the \<open>i\<close>-th response
  produced is the one parsed from the \<open>i\<close>-th entry: nothing is reordered.
\<close>

theorem request_preserves_order:
  assumes "operations \<noteq> []"
    and "fetch_json post self operations = Inr (JArray entries)"
    and "length entries = length operations"
    and "map (JolokiaResponse_init fromtimestamp) entries = map Inr responses"
    and "\<forall>r \<in> set responses. resp_status r \<ge> 400 \<longrightarrow> (\<exists>exc. build_exception r = Inr exc)"
  shows "yielded (request post fromtimestamp self operations) = responses
         \<and> length (yielded (request post fromtimestamp self operations)) = length operations
         \<and> (\<forall>i < length operations.
               JolokiaResponse_init fromtimestamp (entries ! i)
                 = Inr (yielded (request post fromtimestamp self operations) ! i))"
proof -
  from assms(5) have "\<forall>r \<in> set (filter (\<lambda>r. resp_status r \<ge> 400) responses).
                        \<exists>exc. build_exception r = Inr exc"
    by simp
  then obtain failures
    where "map build_exception (filter (\<lambda>r. resp_status r \<ge> 400) responses) = map Inr failures"
    using map_Inr_ex by blast
  from request_loop_accepted [OF assms(4) this, of self "[]"]
  have run: "request post fromtimestamp self operations
               = foldr Yield responses (request_loop fromtimestamp self failures [])"
    using assms(2) by (simp add: request_def results_of_def)
  have y: "yielded (request post fromtimestamp self operations) = responses"
    unfolding run yielded_foldr_Yield by simp
  have len: "length responses = length entries"
    using assms(4) by (metis length_map)
  have "\<forall>i < length operations.
          JolokiaResponse_init fromtimestamp (entries ! i) = Inr (responses ! i)"
  proof (intro allI impI)
    fix i assume "i < length operations"
    then have i: "i < length entries" using assms(3) by simp
    then have "JolokiaResponse_init fromtimestamp (entries ! i)
                 = map (JolokiaResponse_init fromtimestamp) entries ! i" by simp
    also have "\<dots> = map Inr responses ! i" by (simp only: assms(4))
    also have "\<dots> = Inr (responses ! i)" using i len by simp
    finally show "JolokiaResponse_init fromtimestamp (entries ! i) = Inr (responses ! i)" .
  qed
  with y len assms(3) show ?thesis by simp
qed

theorem request_preserves_order_witness:
  "[write_zero, version_request] \<noteq> []
   \<and> fetch_json (answering (JArray [failed_entry, ok_entry])) (client True)
         [write_zero, version_request]
       = Inr (JArray [failed_entry, ok_entry])
   \<and> length [failed_entry, ok_entry] = length [write_zero, version_request]
   \<and> map (JolokiaResponse_init seconds) [failed_entry, ok_entry]
       = map Inr [failed_response, bare_response 200]
   \<and> build_exception failed_response = Inr failed_exc
   \<and> yielded (request (answering (JArray [failed_entry, ok_entry])) seconds (client True)
                [write_zero, version_request])
       = [failed_response, bare_response 200]"
proof -
  have h2: "fetch_json (answering (JArray [failed_entry, ok_entry])) (client True)
              [write_zero, version_request]
            = Inr (JArray [failed_entry, ok_entry])"
    by (simp add: fetch_json_def fetch_json_data_two_requests answering_def)
  have h4: "map (JolokiaResponse_init seconds) [failed_entry, ok_entry]
              = map Inr [failed_response, bare_response 200]"
    by code_simp
  have b: "build_exception failed_response = Inr failed_exc"
    by code_simp
  have s: "resp_status (bare_response 200 :: int JolokiaResponse) = 200"
    by (simp add: bare_response_def)
  have h5: "\<forall>r \<in> set [failed_response, bare_response 200].
              resp_status r \<ge> 400 \<longrightarrow> (\<exists>exc. build_exception r = Inr exc)"
    using b s by simp
  from request_preserves_order
         [where operations = "[write_zero, version_request]"
            and post = "answering (JArray [failed_entry, ok_entry])"
            and self = "client True" and entries = "[failed_entry, ok_entry]"
            and fromtimestamp = seconds
            and responses = "[failed_response, bare_response 200]"]
  show ?thesis
    using h2 h4 h5 b by simp
qed

text \<open>
  The claim C1 without the condition on the entries fails: the reply to two requests is an
  array of two entries, the second has no \<open>status\<close>, and \<open>request\<close> produces one
  response and then raises the validation error.
\<close>

theorem request_stops_at_entry_without_status:
  "length (yielded (request (answering (JArray [ok_entry, entry_without_status])) seconds
                     (client False) [version_request, version_request]))
     \<noteq> length [version_request, version_request]
   \<and> length (yielded (request (answering (JArray [ok_entry, entry_without_status])) seconds
                         (client False) [version_request, version_request])) = 1
   \<and> raised (request (answering (JArray [ok_entry, entry_without_status])) seconds
                (client False) [version_request, version_request])
       = Some (ValidationError [''status''])"
  by code_simp

section \<open>The aggregate failure\<close>

text \<open>
  C2, as the code has it. Let \<open>fetch_json\<close> return a reply whose entries all parse into
  responses, \<open>n\<close> of them, of which \<open>k\<close> have a status of 400 or more, and let \<open>failures\<close>
  be the exceptions that \<open>_build_exception\<close> returns for these, in order (so there are
  \<open>k\<close>). If the client raises on errors and \<open>k > 0\<close>, \<open>request\<close> produces the \<open>n\<close>
  responses and only then raises one group that holds exactly \<open>failures\<close>. If \<open>k = 0\<close> or
  the client does not raise on errors, it produces the \<open>n\<close> responses and returns.
\<close>

theorem request_aggregate_failure:
  assumes "fetch_json post self operations = Inr json_obj"
    and "map (JolokiaResponse_init fromtimestamp) (results_of json_obj) = map Inr responses"
    and "map build_exception (filter (\<lambda>r. resp_status r \<ge> 400) responses) = map Inr failures"
  shows "length failures = length (filter (\<lambda>r. resp_status r \<ge> 400) responses)
         \<and> (raise_exceptions self \<and> 0 < length (filter (\<lambda>r. resp_status r \<ge> 400) responses)
              \<longrightarrow> request post fromtimestamp self operations
                    = foldr Yield responses (Raise (ExceptionGroup ''JolokiaException'' failures)))
         \<and> (\<not> raise_exceptions self \<or> length (filter (\<lambda>r. resp_status r \<ge> 400) responses) = 0
              \<longrightarrow> request post fromtimestamp self operations = foldr Yield responses Return)"
proof -
  have k: "length failures = length (filter (\<lambda>r. resp_status r \<ge> 400) responses)"
    using assms(3) by (metis length_map)
  from request_loop_accepted [OF assms(2) assms(3), of self "[]"]
  have run: "request post fromtimestamp self operations
               = foldr Yield responses (request_loop fromtimestamp self failures [])"
    using assms(1) by (simp add: request_def)
  show ?thesis using k run by auto
qed

theorem request_aggregate_failure_witness:
  "fetch_json (answering (JArray [failed_entry, ok_entry, failed_entry])) (client True)
       [version_request]
     = Inr (JArray [failed_entry, ok_entry, failed_entry])
   \<and> map (JolokiaResponse_init seconds) (results_of (JArray [failed_entry, ok_entry, failed_entry]))
       = map Inr [failed_response, bare_response 200, failed_response]
   \<and> map build_exception
         (filter (\<lambda>r. resp_status r \<ge> 400) [failed_response, bare_response 200, failed_response])
       = map Inr [failed_exc, failed_exc]
   \<and> raise_exceptions (client True)
   \<and> request (answering (JArray [failed_entry, ok_entry, failed_entry])) seconds (client True)
        [version_request]
       = Yield failed_response (Yield (bare_response 200) (Yield failed_response
           (Raise (ExceptionGroup ''JolokiaException'' [failed_exc, failed_exc]))))"
proof -
  have h1: "fetch_json (answering (JArray [failed_entry, ok_entry, failed_entry]))
              (client True) [version_request]
     = Inr (JArray [failed_entry, ok_entry, failed_entry])"
    by (simp add: fetch_json_def fetch_json_data_version_request answering_def)
  have h2: "map (JolokiaResponse_init seconds)
              (results_of (JArray [failed_entry, ok_entry, failed_entry]))
       = map Inr [failed_response, bare_response 200, failed_response]"
    by code_simp
  have h3: "map build_exception
         (filter (\<lambda>r. resp_status r \<ge> 400) [failed_response, bare_response 200, failed_response])
       = map Inr [failed_exc, failed_exc]"
    by code_simp
  have k: "0 < length (filter (\<lambda>r. resp_status r \<ge> 400)
             [failed_response, bare_response 200 :: int JolokiaResponse, failed_response])"
    by code_simp
  have r: "raise_exceptions (client True)" by (simp add: client_def)
  have c: "request (answering (JArray [failed_entry, ok_entry, failed_entry])) seconds
             (client True) [version_request]
           = Yield failed_response (Yield (bare_response 200) (Yield failed_response
               (Raise (ExceptionGroup ''JolokiaException'' [failed_exc, failed_exc]))))"
    using request_aggregate_failure
            [where post = "answering (JArray [failed_entry, ok_entry, failed_entry])"
               and self = "client True" and operations = "[version_request]"
               and json_obj = "JArray [failed_entry, ok_entry, failed_entry]"
               and fromtimestamp = seconds
               and responses = "[failed_response, bare_response 200, failed_response]"
               and failures = "[failed_exc, failed_exc]", OF h1 h2 h3]
          k r
    by (simp del: filter.simps)
  show ?thesis by (intro conjI h1 h2 h3 r c)
qed

text \<open>
  The claim C2 without the condition on the entries fails: of two entries, with the statuses
  500 and 200, the second has an \<open>error\<close> that is not a string; the client raises on
  errors, but \<open>request\<close> produces one response and raises the validation error, and the
  failure collected for the first entry is never raised.
\<close>

theorem request_no_aggregate_after_invalid_entry:
  "yielded (request (answering (JArray [JObject [(''status'', JInt 500)], entry_with_bad_error]))
              seconds (client True) [version_request, version_request])
     = [bare_response 500]
   \<and> raised (request (answering (JArray [JObject [(''status'', JInt 500)], entry_with_bad_error]))
                seconds (client True) [version_request, version_request])
       = Some (ValidationError [''error''])"
  by code_simp

section \<open>The shape of the reply\<close>

text \<open>
  C4, as the code has it. For every JSON object, \<open>request\<close> behaves when \<open>fetch_json\<close>
  returns the bare object exactly as when it returns the array of that one object. When the
  object is accepted (it parses into a response, and when its status is 400 or more a
  failure is made for it), the responses produced are that one response; when it does not
  parse, no response is produced.
\<close>

theorem request_bare_object_as_array:
  assumes "fetch_json post self operations = Inr (JObject obj)"
    and "fetch_json post' self operations = Inr (JArray [JObject obj])"
  shows "request post fromtimestamp self operations = request post' fromtimestamp self operations
         \<and> (\<forall>r. JolokiaResponse_init fromtimestamp (JObject obj) = Inr r
                  \<and> (resp_status r \<ge> 400 \<longrightarrow> (\<exists>exc. build_exception r = Inr exc))
                \<longrightarrow> yielded (request post fromtimestamp self operations) = [r])
         \<and> ((\<forall>r. JolokiaResponse_init fromtimestamp (JObject obj) \<noteq> Inr r)
                \<longrightarrow> yielded (request post fromtimestamp self operations) = [])"
  using assms
  by (auto simp: request_def results_of_def split: sum.splits)

theorem request_bare_object_as_array_witness:
  "fetch_json (answering (JObject failed_fields)) (client True) [version_request]
     = Inr (JObject failed_fields)
   \<and> fetch_json (answering (JArray [JObject failed_fields])) (client True) [version_request]
     = Inr (JArray [JObject failed_fields])
   \<and> JolokiaResponse_init seconds (JObject failed_fields) = Inr failed_response
   \<and> build_exception failed_response = Inr failed_exc
   \<and> request (answering (JObject failed_fields)) seconds (client True) [version_request]
       = request (answering (JArray [JObject failed_fields])) seconds (client True)
           [version_request]
   \<and> yielded (request (answering (JObject failed_fields)) seconds (client True)
                [version_request])
       = [failed_response]"
proof -
  have h1: "fetch_json (answering (JObject failed_fields)) (client True) [version_request]
     = Inr (JObject failed_fields)"
    by (simp add: fetch_json_def fetch_json_data_version_request answering_def)
  have h2: "fetch_json (answering (JArray [JObject failed_fields])) (client True)
              [version_request]
     = Inr (JArray [JObject failed_fields])"
    by (simp add: fetch_json_def fetch_json_data_version_request answering_def)
  have p: "JolokiaResponse_init seconds (JObject failed_fields) = Inr failed_response"
    by code_simp
  have b: "build_exception failed_response = Inr failed_exc"
    by code_simp
  note t = request_bare_object_as_array
             [where post = "answering (JObject failed_fields)"
                and post' = "answering (JArray [JObject failed_fields])"
                and self = "client True" and operations = "[version_request]"
                and obj = failed_fields and fromtimestamp = seconds, OF h1 h2]
  from t have e: "request (answering (JObject failed_fields)) seconds (client True)
                    [version_request]
                  = request (answering (JArray [JObject failed_fields])) seconds (client True)
                      [version_request]"
    by (rule conjunct1)
  from t p b have y: "yielded (request (answering (JObject failed_fields)) seconds
                                (client True) [version_request])
                      = [failed_response]"
    by blast
  show ?thesis by (intro conjI h1 h2 p b e y)
qed

text \<open>
  The claim C4 with "one response for every object" fails: for the object without fields,
  both replies produce no response.
\<close>

theorem request_bare_object_without_status:
  "yielded (request (answering entry_without_status) seconds (client False) [version_request])
     = []
   \<and> yielded (request (answering (JArray [entry_without_status])) seconds (client False)
                [version_request])
     = []"
  by code_simp

section \<open>Parsing a response\<close>








section \<open>The version of the agent\<close>

lemma anext_request_loop_flag:
  "anext (request_loop fromtimestamp self [] results)
     = anext (request_loop fromtimestamp self' [] results)"
  by (cases results) (auto split: sum.splits)

lemma anext_request_loop_error:
  "anext (request_loop fromtimestamp self [] results) = Inl e \<Longrightarrow>
     e = StopAsyncIteration \<or> e = TypeError \<or> e = OverflowError \<or> e = OSError
     \<or> e = ValueError \<or> (\<exists>names. e = ValidationError names)"
  by (cases results)
     (auto split: sum.splits if_splits dest: JolokiaResponse_init_error build_exception_error)

lemma anext_request_error:
  "anext (request post fromtimestamp self operations) = Inl e \<Longrightarrow>
     e = StopAsyncIteration \<or> e = TypeError \<or> e = OverflowError \<or> e = OSError
     \<or> e = ValueError \<or> (\<exists>names. e = ValidationError names)
     \<or> (\<exists>message. e = TransportError message)"
  by (auto simp: request_def split: sum.splits dest: anext_request_loop_error fetch_json_error)

lemma JolokiaVersion_init_error:
  "JolokiaVersion_init v = Inl e \<Longrightarrow> e = TypeError \<or> (\<exists>names. e = ValidationError names)"
  by (auto simp: JolokiaVersion_init_def split: json.splits option.splits prod.splits)

lemma build_exception_Instance:
  "build_exception response = Inr exc \<Longrightarrow> \<exists>cls arg notes. exc = Instance cls arg notes"
  by (auto simp: build_exception_def type_new_def Let_def
           split: option.splits if_splits sum.splits)

text \<open>
  C6, as the code has it. \<open>version\<close> sends the one request \<open>{"type": "version"}\<close> and
  takes the first response that \<open>request\<close> produces, which is parsed from the first entry
  of the reply. If its status is 200, the result is the version information built from
  its value, which is returned when the value has the shape of the version information
  and is a validation error (or a type error) otherwise; a version information is returned
  only for the status 200. For any other status, \<open>version\<close> raises the exception that
  \<open>_build_exception\<close> returns for that response. The result depends on the transport
  only through the reply to that one request. The two examples of the specification are
  the witness.
\<close>

theorem version_first_response:
  assumes "post (base_url self) (auth self) version_body = Inr reply"
    and "anext (request post fromtimestamp self [version_request]) = Inr response"
  shows "version post fromtimestamp self = version (answering reply) fromtimestamp self
         \<and> (\<exists>result results. results_of reply = result # results
               \<and> JolokiaResponse_init fromtimestamp result = Inr response)
         \<and> (resp_status response = 200 \<longrightarrow>
               version post fromtimestamp self = JolokiaVersion_init (resp_value response))
         \<and> (resp_status response \<noteq> 200 \<longrightarrow>
               (\<forall>exc. build_exception response = Inr exc \<longrightarrow>
                  version post fromtimestamp self = Inl exc))
         \<and> (\<forall>v. version post fromtimestamp self = Inr v \<longrightarrow>
               resp_status response = 200 \<and> JolokiaVersion_init (resp_value response) = Inr v)"
proof -
  have run: "request post fromtimestamp self [version_request]
               = request_loop fromtimestamp self [] (results_of reply)"
    using assms(1)
    by (simp add: request_def fetch_json_def fetch_json_data_version_request)
  have "request (answering reply) fromtimestamp self [version_request]
          = request_loop fromtimestamp self [] (results_of reply)"
    by (simp add: request_def fetch_json_def fetch_json_data_version_request answering_def)
  with run have same: "version post fromtimestamp self
                         = version (answering reply) fromtimestamp self"
    by (simp add: version_def)
  have first: "\<exists>result results. results_of reply = result # results
             \<and> JolokiaResponse_init fromtimestamp result = Inr response"
    using assms(2) unfolding run
    by (cases "results_of reply") (auto split: sum.splits if_splits)
  have rest: "(resp_status response = 200 \<longrightarrow>
               version post fromtimestamp self = JolokiaVersion_init (resp_value response))
         \<and> (resp_status response \<noteq> 200 \<longrightarrow>
               (\<forall>exc. build_exception response = Inr exc \<longrightarrow>
                  version post fromtimestamp self = Inl exc))
         \<and> (\<forall>v. version post fromtimestamp self = Inr v \<longrightarrow>
               resp_status response = 200 \<and> JolokiaVersion_init (resp_value response) = Inr v)"
    using assms(2) by (auto simp: version_def exn_bool_def split: sum.splits)
  from same first rest show ?thesis by blast
qed

theorem version_first_response_witness:
  "answering version_reply_200 (base_url (client True)) (auth (client True)) version_body
     = Inr version_reply_200
   \<and> anext (request (answering version_reply_200) seconds (client True) [version_request])
       = Inr version_response_200
   \<and> resp_status version_response_200 = 200
   \<and> version (answering version_reply_200) seconds (client True) = Inr version_info_72
   \<and> ver_protocol version_info_72 = ''7.2''
   \<and> answering version_reply_404 (base_url (client True)) (auth (client True)) version_body
       = Inr version_reply_404
   \<and> anext (request (answering version_reply_404) seconds (client True) [version_request])
       = Inr version_response_404
   \<and> resp_status version_response_404 = 404
   \<and> build_exception version_response_404 = Inr illegal_argument
   \<and> version (answering version_reply_404) seconds (client True) = Inl illegal_argument"
proof -
  have p1: "answering version_reply_200 (base_url (client True)) (auth (client True))
              version_body = Inr version_reply_200"
    by (simp add: answering_def)
  have f1: "anext (request (answering version_reply_200) seconds (client True)
                     [version_request]) = Inr version_response_200"
    by code_simp
  have s1: "resp_status version_response_200 = 200"
    by code_simp
  have v1: "JolokiaVersion_init (resp_value version_response_200) = Inr version_info_72"
    by code_simp
  have r1: "version (answering version_reply_200) seconds (client True) = Inr version_info_72"
    using version_first_response
            [where post = "answering version_reply_200" and self = "client True"
               and reply = version_reply_200 and fromtimestamp = seconds
               and response = version_response_200, OF p1 f1] s1 v1
    by simp
  have q1: "ver_protocol version_info_72 = ''7.2''"
    by (simp add: version_info_72_def)
  have p2: "answering version_reply_404 (base_url (client True)) (auth (client True))
              version_body = Inr version_reply_404"
    by (simp add: answering_def)
  have f2: "anext (request (answering version_reply_404) seconds (client True)
                     [version_request]) = Inr version_response_404"
    by code_simp
  have s2: "resp_status version_response_404 = 404"
    by code_simp
  have b2: "build_exception version_response_404 = Inr illegal_argument"
    by code_simp
  have r2: "version (answering version_reply_404) seconds (client True) = Inl illegal_argument"
    using version_first_response
            [where post = "answering version_reply_404" and self = "client True"
               and reply = version_reply_404 and fromtimestamp = seconds
               and response = version_response_404, OF p2 f2] s2 b2
    by simp
  show ?thesis by (intro conjI p1 f1 s1 r1 q1 p2 f2 s2 b2 r2)
qed

text \<open>
  The claim C6 with "returns the version information if the status is 200" fails: the
  status is 200 and the value has only the protocol, and \<open>version\<close> raises a validation
  error.
\<close>

theorem version_status_200_without_info:
  "anext (request (answering version_reply_incomplete) seconds (client False) [version_request])
     = Inr ((bare_response 200)\<lparr>resp_value := JObject [(''protocol'', JString ''7.2'')]\<rparr>)
   \<and> resp_status ((bare_response 200 :: int JolokiaResponse)
         \<lparr>resp_value := JObject [(''protocol'', JString ''7.2'')]\<rparr>) = 200
   \<and> version (answering version_reply_incomplete) seconds (client False)
       = Inl (ValidationError [''agent'', ''info''])"
  by code_simp

lemma version_error:
  assumes "version post fromtimestamp self = Inl e"
  shows "(\<exists>response. anext (request post fromtimestamp self [version_request]) = Inr response
            \<and> resp_status response \<noteq> 200 \<and> build_exception response = Inr e)
         \<or> (\<exists>message. e = TransportError message) \<or> e = StopAsyncIteration
         \<or> e = TypeError \<or> (\<exists>names. e = ValidationError names)
         \<or> e = OverflowError \<or> e = OSError \<or> e = ValueError"
proof (cases "anext (request post fromtimestamp self [version_request])")
  case (Inl e')
  with assms have "e' = e" by (simp add: version_def)
  with anext_request_error [OF Inl] show ?thesis by auto
next
  case (Inr response)
  show ?thesis
  proof (cases "resp_status response = 200")
    case True
    with assms Inr have "JolokiaVersion_init (resp_value response) = Inl e"
      by (simp add: version_def)
    from JolokiaVersion_init_error [OF this] show ?thesis by auto
  next
    case False
    show ?thesis
    proof (cases "build_exception response")
      case (Inl e')
      with assms Inr False have "e' = e" by (simp add: version_def)
      with build_exception_error [OF Inl] show ?thesis by simp
    next
      case built: (Inr exc)
      with assms Inr False have "exc = e" by (simp add: version_def exn_bool_def)
      with built Inr False show ?thesis by simp
    qed
  qed
qed

text \<open>
  C8, as the code has it. \<open>version\<close> never raises a group of exceptions, for every reply
  and whatever the flag \<open>raise_exceptions\<close> of the client: its result is the one it has
  when the flag is false. An instance of a class made by \<open>_build_exception\<close> that it
  raises is the one failure made for the response it took. Every other failure that it
  raises is a failure of the transport, the end of the iteration (the reply has no entry),
  or an error raised while the response, the failure or the version information is built.
\<close>

theorem version_never_raises_group:
  "version post fromtimestamp (self\<lparr>raise_exceptions := flag\<rparr>)
     = version post fromtimestamp (self\<lparr>raise_exceptions := False\<rparr>)
   \<and> version post fromtimestamp self \<noteq> Inl (ExceptionGroup name es)
   \<and> (version post fromtimestamp self = Inl (Instance cls arg notes) \<longrightarrow>
        (\<exists>response. anext (request post fromtimestamp self [version_request]) = Inr response
           \<and> resp_status response \<noteq> 200
           \<and> build_exception response = Inr (Instance cls arg notes)))
   \<and> (\<forall>e. version post fromtimestamp self = Inl e \<longrightarrow>
        (\<exists>response. anext (request post fromtimestamp self [version_request]) = Inr response
            \<and> resp_status response \<noteq> 200 \<and> build_exception response = Inr e)
        \<or> (\<exists>message. e = TransportError message) \<or> e = StopAsyncIteration
        \<or> e = TypeError \<or> (\<exists>names. e = ValidationError names)
        \<or> e = OverflowError \<or> e = OSError \<or> e = ValueError)"
proof (intro conjI impI allI)
  have "anext (request post fromtimestamp (self\<lparr>raise_exceptions := flag\<rparr>) [version_request])
          = anext (request post fromtimestamp (self\<lparr>raise_exceptions := False\<rparr>)
                     [version_request])"
    using anext_request_loop_flag
    by (auto simp: request_def fetch_json_def split: sum.splits)
  then show "version post fromtimestamp (self\<lparr>raise_exceptions := flag\<rparr>)
     = version post fromtimestamp (self\<lparr>raise_exceptions := False\<rparr>)"
    by (simp add: version_def)
next
  show "version post fromtimestamp self \<noteq> Inl (ExceptionGroup name es)"
    using version_error [of post fromtimestamp self "ExceptionGroup name es"]
    by (auto dest: build_exception_Instance)
next
  assume "version post fromtimestamp self = Inl (Instance cls arg notes)"
  from version_error [OF this]
  show "\<exists>response. anext (request post fromtimestamp self [version_request]) = Inr response
           \<and> resp_status response \<noteq> 200
           \<and> build_exception response = Inr (Instance cls arg notes)"
    by simp
next
  fix e
  assume "version post fromtimestamp self = Inl e"
  then show "(\<exists>response. anext (request post fromtimestamp self [version_request]) = Inr response
            \<and> resp_status response \<noteq> 200 \<and> build_exception response = Inr e)
        \<or> (\<exists>message. e = TransportError message) \<or> e = StopAsyncIteration
        \<or> e = TypeError \<or> (\<exists>names. e = ValidationError names)
        \<or> e = OverflowError \<or> e = OSError \<or> e = ValueError"
    by (rule version_error)
qed

theorem version_never_raises_group_witness:
  "version (answering version_reply_404) seconds (client True) = Inl illegal_argument
   \<and> anext (request (answering version_reply_404) seconds (client True) [version_request])
       = Inr version_response_404
   \<and> build_exception version_response_404 = Inr illegal_argument
   \<and> version (answering version_reply_404) seconds (client True)
       = version (answering version_reply_404) seconds (client False)"
proof -
  have r: "version (answering version_reply_404) seconds (client True) = Inl illegal_argument"
    by code_simp
  have f: "anext (request (answering version_reply_404) seconds (client True)
                    [version_request]) = Inr version_response_404"
    by code_simp
  have b: "build_exception version_response_404 = Inr illegal_argument"
    by code_simp
  have c: "(client True)\<lparr>raise_exceptions := True\<rparr> = client True"
          "(client True)\<lparr>raise_exceptions := False\<rparr> = client False"
    by (simp_all add: client_def)
  have e: "version (answering version_reply_404) seconds (client True)
             = version (answering version_reply_404) seconds (client False)"
    using version_never_raises_group
            [where post = "answering version_reply_404" and fromtimestamp = seconds
               and self = "client True" and flag = True, THEN conjunct1]
    by (simp only: c)
  show ?thesis by (intro conjI r f b e)
qed

text \<open>
  The claim C8 with "the only failure it can raise is the synthesized failure" fails:
  for a reply that is the empty array \<open>version\<close> raises the end of the iteration, and when
  the transport fails it raises the failure of the transport.
\<close>

theorem version_raises_other_failures:
  "version (answering (JArray [])) seconds (client True) = Inl StopAsyncIteration
   \<and> version (failing ''connection refused'') seconds (client True)
       = Inl (TransportError ''connection refused'')"
  by code_simp

section \<open>Splitting, and the name and the message of a synthesized failure\<close>

lemma split_from_not_Nil: "split_from sep cur s \<noteq> []"
  by (induction sep cur s rule: split_from.induct) auto

lemma str_join_Cons: "xs \<noteq> [] \<Longrightarrow> str_join sep (x # xs) = x @ sep @ str_join sep xs"
  by (cases xs) simp_all

text \<open>Joining the pieces gives the string back.\<close>

lemma str_join_split_from: "str_join sep (split_from sep cur s) = cur @ s"
proof (induction sep cur s rule: split_from.induct)
  case (1 sep cur)
  then show ?case by simp
next
  case (2 sep cur c cs)
  show ?case
  proof (cases "sep \<noteq> [] \<and> prefix sep (c # cs)")
    case True
    then obtain rest where rest: "c # cs = sep @ rest" by (auto simp: prefix_def)
    then have d: "drop (length sep) (c # cs) = rest" by simp
    have "split_from sep cur (c # cs) = cur # split_from sep [] (drop (length sep) (c # cs))"
      using True by simp
    then have "str_join sep (split_from sep cur (c # cs))
                 = cur @ sep @ str_join sep (split_from sep [] (drop (length sep) (c # cs)))"
      by (simp only: str_join_Cons [OF split_from_not_Nil])
    also have "\<dots> = cur @ sep @ drop (length sep) (c # cs)"
      using 2(1) [OF True] by simp
    also have "\<dots> = cur @ c # cs"
      unfolding d using rest by simp
    finally show ?thesis .
  next
    case False
    with 2 show ?thesis by auto
  qed
qed

text \<open>No occurrence of the separator: one piece.\<close>

lemma split_from_no_occurrence:
  "(\<forall>i < length s. \<not> prefix sep (drop i s)) \<Longrightarrow> split_from sep cur s = [cur @ s]"
proof (induction s arbitrary: cur)
  case Nil
  then show ?case by simp
next
  case (Cons c cs)
  from Cons.prems have "\<not> prefix sep (c # cs)" by (metis drop0 length_greater_0_conv list.distinct(1))
  moreover from Cons.prems have "\<forall>i < length cs. \<not> prefix sep (drop i cs)"
    by (metis Suc_less_eq drop_Suc_Cons length_Cons)
  ultimately show ?case using Cons.IH [of "cur @ [c]"] by simp
qed

text \<open>The first occurrence of the separator ends the first piece.\<close>

lemma split_from_first_occurrence:
  "sep \<noteq> [] \<Longrightarrow> (\<forall>i < length pre. \<not> prefix sep (drop i (pre @ sep @ rest))) \<Longrightarrow>
     split_from sep cur (pre @ sep @ rest) = (cur @ pre) # split_from sep [] rest"
proof (induction pre arbitrary: cur)
  case Nil
  then show ?case by (cases sep) auto
next
  case (Cons c cs)
  from Cons.prems(2) have "\<not> prefix sep (c # cs @ sep @ rest)"
    by (metis append_Cons drop0 length_greater_0_conv list.distinct(1))
  moreover from Cons.prems(2) have "\<forall>i < length cs. \<not> prefix sep (drop i (cs @ sep @ rest))"
    by (metis Suc_less_eq append_Cons drop_Suc_Cons length_Cons)
  ultimately show ?case using Cons.IH [OF Cons.prems(1), of "cur @ [c]"] by simp
qed

text \<open>The last piece for a separator of one character: what follows its last occurrence.\<close>

lemma last_split_from_char:
  "last (split_from [c] cur s) = (if c \<in> set s then rev (takeWhile (\<lambda>x. x \<noteq> c) (rev s)) else cur @ s)"
proof (induction s arbitrary: cur)
  case Nil
  then show ?case by simp
next
  case (Cons x xs)
  show ?case
  proof (cases "x = c")
    case True
    then show ?thesis
      using Cons.IH [of "[]"] by (auto simp: split_from_not_Nil takeWhile_append)
  next
    case False
    then show ?thesis
      using Cons.IH [of "cur @ [x]"] by (auto simp: takeWhile_append)
  qed
qed

lemma build_exception_unfold:
  "build_exception response =
     (if CHR 0x00 \<in> set (exc_name response) then Inl ValueError
      else Inr (Instance (Created (exc_name response) [JavaException])
             (case resp_error response of
                Some error \<Rightarrow>
                  if error \<noteq> [] \<and> str_join '': '' (tl (str_split '': '' error)) \<noteq> []
                  then Some (str_join '': '' (tl (str_split '': '' error))) else None
              | None \<Rightarrow> None)
             (case resp_stacktrace response of
                Some stacktrace \<Rightarrow> if stacktrace \<noteq> [] then [stacktrace] else []
              | None \<Rightarrow> [])))"
  by (simp add: build_exception_def exc_msg_def Let_def type_new_def split: option.splits)

text \<open>
  The name of the class is what follows the last \<open>"."\<close> of the error type (the whole
  error type when it has none), and \<open>"Throwable"\<close> when the error type is absent or empty.
\<close>

lemma build_exception_name:
  assumes "build_exception response = Inr (Instance cls arg notes)"
  shows "cls = Created
           (case resp_error_type response of
              Some error_type \<Rightarrow>
                if error_type = [] then ''Throwable''
                else if CHR ''.'' \<in> set error_type
                     then rev (takeWhile (\<lambda>c. c \<noteq> CHR ''.'') (rev error_type))
                     else error_type
            | None \<Rightarrow> ''Throwable'')
           [JavaException]"
  using assms
  by (auto simp: build_exception_unfold exc_name_def str_split_def last_split_from_char
           split: option.splits if_splits)

text \<open>
  When the error contains \<open>": "\<close>, the message is what follows its first occurrence; an
  empty rest gives no message.
\<close>

lemma build_exception_message_after_separator:
  assumes "build_exception response = Inr (Instance cls arg notes)"
    and "resp_error response = Some (pre @ '': '' @ rest)"
    and "\<forall>i < length pre. \<not> prefix '': '' (drop i (pre @ '': '' @ rest))"
  shows "arg = (if rest = [] then None else Some rest)"
proof -
  have "str_split '': '' (pre @ '': '' @ rest) = pre # split_from '': '' [] rest"
    unfolding str_split_def using split_from_first_occurrence [OF _ assms(3), of "[]"] by simp
  then have "str_join '': '' (tl (str_split '': '' (pre @ '': '' @ rest))) = rest"
    using str_join_split_from [of "'': ''" "[]" rest] by simp
  then show ?thesis
    using assms(1) unfolding build_exception_unfold assms(2)
    by (auto split: if_splits)
qed

text \<open>When the error does not contain \<open>": "\<close>, there is no message.\<close>

lemma build_exception_message_without_separator:
  assumes "build_exception response = Inr (Instance cls arg notes)"
    and "resp_error response = Some error"
    and "\<forall>i < length error. \<not> prefix '': '' (drop i error)"
  shows "arg = None"
proof -
  have "str_split '': '' error = [error]"
    unfolding str_split_def using split_from_no_occurrence [OF assms(3), of "[]"] by simp
  then show ?thesis
    using assms(1) unfolding build_exception_unfold assms(2)
    by (auto split: if_splits)
qed

lemma build_exception_message_absent:
  assumes "build_exception response = Inr (Instance cls arg notes)"
    and "resp_error response = None \<or> resp_error response = Some []"
  shows "arg = None"
  using assms unfolding build_exception_unfold
  by (auto split: if_splits)

text \<open>Building the exception fails exactly when the name has a null character.\<close>

lemma build_exception_raises:
  "(\<exists>e. build_exception response = Inl e) \<longleftrightarrow>
     (\<exists>error_type. resp_error_type response = Some error_type \<and> error_type \<noteq> []
        \<and> CHR 0x00 \<in> set (last (str_split ''.'' error_type)))"
  by (auto simp: build_exception_unfold exc_name_def split: option.splits if_splits)

section \<open>The message of a synthesized failure\<close>

text \<open>
  C3. For a failed response whose \<open>error\<close> has no \<open>": "\<close>, here \<open>"connection reset"\<close>,
  \<open>_build_exception\<close> returns an exception without a message: \<open>split\<close> gives one piece,
  \<open>[1:]\<close> drops it, and the empty join is false in the condition that passes the message.
\<close>

theorem build_exception_error_without_separator:
  "build_exception reset_response = Inr (Instance (Created ''IOException'' [JavaException]) None [])"
  by code_simp

end
